theory Spec2Isabelle
  imports Complex_Main
begin

section \<open>Zone catalog and zone selection (ZoneSelectorPage)\<close>

text \<open>
  The catalog \<^verbatim>\<open>ZONE_REGIONS\<close> of the zone selector page, region by region, and the
  selection limit \<^verbatim>\<open>MAX_ZONES\<close>.
\<close>

definition ZONE_REGIONS :: "(string \<times> string list) list" where
  "ZONE_REGIONS =
     [(''North'', [''N1'', ''N2'', ''N3'', ''N4'', ''N5'', ''N6'']),
      (''South'', [''S1'', ''S2'', ''S3'', ''S4'', ''S5'', ''S6'']),
      (''East'', [''E1'', ''E2'', ''E3'', ''E4'']),
      (''West'', [''W1'', ''W2'', ''W3'', ''W4'']),
      (''North-East'', [''NE1'', ''NE2'', ''NE3'', ''NE4'']),
      (''Central'', [''C1'', ''C2'', ''C3'', ''C4''])]"

definition catalog_zones :: "string list" where
  "catalog_zones = concat (map snd ZONE_REGIONS)"

definition MAX_ZONES :: nat where
  "MAX_ZONES = 28"

text \<open>
  The two pieces of component state that \<^verbatim>\<open>handleZoneToggle\<close> touches:
  \<^verbatim>\<open>selectedZones\<close> (an array of codes, in selection order) and \<^verbatim>\<open>showMaxWarning\<close>.
  The timer that hides the warning three seconds later is not part of the update itself.
\<close>

record selector =
  selectedZones :: "string list"
  showMaxWarning :: bool

definition selector_init :: selector where
  "selector_init = \<lparr>selectedZones = [], showMaxWarning = False\<rparr>"

definition handleZoneToggle :: "string \<Rightarrow> selector \<Rightarrow> selector" where
  "handleZoneToggle zoneCode st =
     (let prev = selectedZones st;
          isCurrentlySelected = (zoneCode \<in> set prev)
      in if isCurrentlySelected
         then \<lparr>selectedZones = filter (\<lambda>zone. zone \<noteq> zoneCode) prev, showMaxWarning = False\<rparr>
         else if length prev \<ge> MAX_ZONES
              then \<lparr>selectedZones = prev, showMaxWarning = True\<rparr>
              else st\<lparr>selectedZones := prev @ [zoneCode]\<rparr>)"

text \<open>A sequence of toggles, applied left to right.\<close>

definition toggles :: "string list \<Rightarrow> selector \<Rightarrow> selector" where
  "toggles codes st = fold handleZoneToggle codes st"

section \<open>Zone-code pattern of the zone configuration middleware\<close>

text \<open>
  \<^verbatim>\<open>validZonePattern = /^(N|S|E|W|NE|C)[1-6]$/\<close>, applied with \<^verbatim>\<open>test\<close>: the whole
  string is one of the six prefixes followed by one digit from 1 to 6.
\<close>

definition zone_prefixes :: "string list" where
  "zone_prefixes = [''N'', ''S'', ''E'', ''W'', ''NE'', ''C'']"

definition validZonePattern :: "string \<Rightarrow> bool" where
  "validZonePattern s =
     (s \<noteq> [] \<and> butlast s \<in> set zone_prefixes \<and> last s \<in> set ''123456'')"

section \<open>Rate matrix store and normalizer\<close>

text \<open>
  The rate matrix lives in the hook \<^verbatim>\<open>useZoneRates\<close>, which the page imports. The
  store is a mapping from (from, to) pairs to a price that may be unset: \<open>None\<close> is no
  entry, \<open>Some None\<close> an entry without price.
\<close>

type_synonym rate_matrix = "string \<times> string \<Rightarrow> rat option option"

text \<open>
  Modelled from the spec: \<^verbatim>\<open>initialize(fromZones, toZones)\<close> of the rate matrix store,
  whose implementation (in \<^verbatim>\<open>useZoneRates\<close>) is missing. One entry per (from, to) pair,
  with price absent where the pair had no entry; entries of pairs still in scope are
  kept; entries with a zone outside the active sets are dropped.
\<close>

definition initialize :: "string set \<Rightarrow> string set \<Rightarrow> rate_matrix \<Rightarrow> rate_matrix" where
  "initialize fromZones toZones m =
     (\<lambda>(f, t). if f \<in> fromZones \<and> t \<in> toZones
                then (case m (f, t) of None \<Rightarrow> Some None | Some p \<Rightarrow> Some p)
                else None)"

text \<open>
  Modelled from the spec: rounding to two fractional decimal digits, half-up, on exact
  decimals; the implementation (\<^verbatim>\<open>normalizeAndValidate\<close> of \<^verbatim>\<open>useZoneRates\<close>) is
  missing.
\<close>

definition round_half_up :: "rat \<Rightarrow> rat" where
  "round_half_up x = of_int \<lfloor>x * 100 + 1 / 2\<rfloor> / 100"

text \<open>
  Modelled from the spec: \<^verbatim>\<open>normalize(matrix)\<close>, whose implementation is missing. Every
  present price is rounded; the result is a new matrix with the same entries.
\<close>

definition normalize :: "rate_matrix \<Rightarrow> rate_matrix" where
  "normalize m = (\<lambda>k. map_option (map_option round_half_up) (m k))"

text \<open>
  Modelled from the spec: \<^verbatim>\<open>validate(matrix, activeZones)\<close>, the validation of the rate
  matrix that a submission has to pass (\<^verbatim>\<open>validateZoneRates\<close> of \<^verbatim>\<open>useZoneRates\<close>),
  whose implementation is missing. It fails with the errors it finds: a missing-entry error for
  every in-scope pair that has no price, a negative-price error for every entry whose
  price is below zero, and an out-of-scope error for every entry that names a zone
  outside the active set. It succeeds when there is none.
\<close>

datatype validation_error =
    MissingEntry string string
  | NegativePrice string string rat
  | ZoneOutOfScope string string

definition matrix_errors :: "rate_matrix \<Rightarrow> string set \<Rightarrow> validation_error set" where
  "matrix_errors m activeZones =
     {MissingEntry f t | f t.
        f \<in> activeZones \<and> t \<in> activeZones \<and> (m (f, t) = None \<or> m (f, t) = Some None)}
     \<union> {NegativePrice f t p | f t p. m (f, t) = Some (Some p) \<and> p < 0}
     \<union> {ZoneOutOfScope f t | f t.
           m (f, t) \<noteq> None \<and> (f \<notin> activeZones \<or> t \<notin> activeZones)}"

definition validate :: "rate_matrix \<Rightarrow> string set \<Rightarrow> validation_error set + unit" where
  "validate m activeZones =
     (if matrix_errors m activeZones = {} then Inr () else Inl (matrix_errors m activeZones))"

section \<open>Reading the customer id from the token (AddVendor page)\<close>

text \<open>
  JavaScript values as far as the page reads them: what \<^verbatim>\<open>JSON.parse\<close> can return.
  \<^verbatim>\<open>undefined\<close> is \<open>None\<close> of \<open>json option\<close>. An object is its list of properties;
  where a key is repeated, the last one counts.
\<close>

datatype json =
    JNull
  | JBool bool
  | JNum rat
  | JStr string
  | JArr "json list"
  | JObj "(string \<times> json) list"

fun truthy :: "json \<Rightarrow> bool" where
  "truthy JNull = False"
| "truthy (JBool b) = b"
| "truthy (JNum n) = (n \<noteq> 0)"
| "truthy (JStr s) = (s \<noteq> [])"
| "truthy (JArr xs) = True"
| "truthy (JObj kvs) = True"

text \<open>\<^verbatim>\<open>a || b\<close> on values that may be undefined.\<close>

definition js_or :: "json option \<Rightarrow> json option \<Rightarrow> json option" where
  "js_or a b = (case a of None \<Rightarrow> b | Some v \<Rightarrow> if truthy v then a else b)"

text \<open>
  \<^verbatim>\<open>x?.k\<close>: undefined when \<^verbatim>\<open>x\<close> is undefined or null; the property of an object;
  undefined for the keys read here on a number, a string, a boolean or an array.
\<close>

fun get_prop :: "json option \<Rightarrow> string \<Rightarrow> json option" where
  "get_prop (Some (JObj kvs)) k = map_of (rev kvs) k"
| "get_prop _ k = None"

text \<open>\<^verbatim>\<open>typeof x === 'object'\<close>: objects, arrays and null.\<close>

fun typeof_object :: "json option \<Rightarrow> bool" where
  "typeof_object (Some JNull) = True"
| "typeof_object (Some (JArr xs)) = True"
| "typeof_object (Some (JObj kvs)) = True"
| "typeof_object _ = False"

datatype js_error = TypeError

text \<open>\<^verbatim>\<open>Object.keys\<close> throws on null and returns the keys otherwise (indices for an array).\<close>

fun Object_keys :: "json \<Rightarrow> js_error + string list" where
  "Object_keys JNull = Inl TypeError"
| "Object_keys (JObj kvs) = Inr (remdups (map fst kvs))"
| "Object_keys _ = Inr []"

text \<open>
  The three places \<^verbatim>\<open>getAuthToken\<close> looks at; a cookie or storage item may be missing.
\<close>

record auth_storage =
  cookie_authToken :: "string option"
  local_authToken :: "string option"
  local_token :: "string option"

definition or_else :: "string option \<Rightarrow> string \<Rightarrow> string" where
  "or_else a b = (case a of None \<Rightarrow> b | Some s \<Rightarrow> if s = [] then b else s)"

definition getAuthToken :: "auth_storage \<Rightarrow> string" where
  "getAuthToken st =
     or_else (cookie_authToken st) (or_else (local_authToken st) (or_else (local_token st) []))"

text \<open>\<^verbatim>\<open>s.split(c)\<close> for a one-character separator: the empty string gives one empty part.\<close>

fun split_on :: "char \<Rightarrow> string \<Rightarrow> string list" where
  "split_on c [] = [[]]"
| "split_on c (x # xs) =
     (if x = c then [] # split_on c xs
      else (case split_on c xs of [] \<Rightarrow> [[x]] | w # ws \<Rightarrow> (x # w) # ws))"

text \<open>
  \<^verbatim>\<open>base64UrlToJson\<close>: the URL-safe alphabet is mapped back, the string is padded with
  \<^verbatim>\<open>=\<close> to a multiple of four, and \<^verbatim>\<open>JSON.parse(atob(b64))\<close> is taken as the parameter
  \<open>atob_parse\<close>, \<open>None\<close> when either of the two throws (the \<^verbatim>\<open>catch\<close> then returns null).
\<close>

definition base64UrlToJson :: "(string \<Rightarrow> json option) \<Rightarrow> string \<Rightarrow> json option" where
  "base64UrlToJson atob_parse b64url =
     (let replaced = map (\<lambda>c. if c = CHR ''-'' then CHR ''+''
                                 else if c = CHR ''_'' then CHR ''/'' else c) b64url;
          target = ((length b64url + 3) div 4) * 4;
          b64 = replaced @ replicate (target - length replaced) (CHR ''='')
      in atob_parse b64)"

text \<open>
  \<^verbatim>\<open>getCustomerIDFromToken\<close>, on the token that \<^verbatim>\<open>getAuthToken\<close> returned. The debug
  output is left out, but not the \<^verbatim>\<open>Object.keys(payload.customer)\<close> behind
  \<^verbatim>\<open>typeof payload?.customer === 'object'\<close>, which throws when that property is null.
\<close>

definition getCustomerIDFromToken :: "(string \<Rightarrow> json option) \<Rightarrow> string \<Rightarrow> js_error + json" where
  "getCustomerIDFromToken atob_parse token =
     (if token = [] \<or> length (split_on (CHR ''.'') token) < 2 then Inr (JStr [])
      else
        let payload =
              Some (case base64UrlToJson atob_parse (split_on (CHR ''.'') token ! 1) of
                      None \<Rightarrow> JObj []
                    | Some v \<Rightarrow> if truthy v then v else JObj []);
            ident =
              js_or (get_prop (get_prop payload ''customer'') ''_id'')
             (js_or (get_prop (get_prop payload ''user'') ''_id'')
             (js_or (get_prop payload ''_id'')
             (js_or (get_prop payload ''id'')
             (js_or (get_prop payload ''customerId'')
             (js_or (get_prop payload ''customerID'')
                    (Some (JStr [])))))));
            keys = (if typeof_object (get_prop payload ''customer'')
                    then (case get_prop payload ''customer'' of
                            None \<Rightarrow> Inr [] | Some c \<Rightarrow> Object_keys c)
                    else Inr [])
        in case keys of
             Inl err \<Rightarrow> Inl err
           | Inr _ \<Rightarrow>
               Inr (case js_or ident (Some (JStr [])) of None \<Rightarrow> JStr [] | Some v \<Rightarrow> v))"

section \<open>Submission (handleSubmit of the AddVendor page)\<close>

text \<open>
  \<^verbatim>\<open>handleSubmit\<close> orchestrates collaborators that are hooks and platform calls. The model
  records what it does to them as a list of effects, in program order; the debug
  emitters and the console are left out.
\<close>

datatype form_section = Basics | Geo | Volumetric | Charges | ZoneRates

datatype toast_msg = Literal string | ServerMessage json | FailedToCreate nat

datatype upload = UserFile string | Placeholder nat string

datatype form_value = FText string | FValue json | FFile upload

record request =
  url :: string
  authorization :: string
  form :: "(string \<times> form_value) list"

datatype effect =
    PreventDefault
  | CallValidate form_section
  | ToastError toast_msg
  | ToastSuccess toast_msg
  | SetIsSubmitting bool
  | CallNormalizeAndValidate
  | Fetch request
  | ClearDraft
  | Reset form_section
  | SetPriceChartFile "string option"
  | BumpRefreshTrigger

text \<open>
  What \<^verbatim>\<open>handleSubmit\<close> reads: the verdict of each section's validator, whether
  \<^verbatim>\<open>normalizeAndValidate()\<close> returned a matrix, the company name, the serialised vendor
  object, the chosen price chart file (if any), the token storage, the decoder, the
  clock and the base URL. \<^verbatim>\<open>String.prototype.trim\<close> belongs to the platform and is
  taken as it is.
\<close>

record submit_env =
  valid :: "form_section \<Rightarrow> bool"
  normalize_ok :: bool
  companyName :: string
  vendorJson :: string
  priceChartFile :: "string option"
  storage :: auth_storage
  atob_parse :: "string \<Rightarrow> json option"
  now :: nat
  API_BASE :: string
  trim :: "string \<Rightarrow> string"

text \<open>
  \<^verbatim>\<open>validateAll\<close>: every validator is called, each failure adds its message, and the
  messages are shown only when something failed.
\<close>

definition validation_errors :: "submit_env \<Rightarrow> string list" where
  "validation_errors env =
     (if \<not> valid env Basics then [''Company information is incomplete or invalid''] else []) @
     (if \<not> valid env Geo then [''Location information is incomplete''] else []) @
     (if \<not> valid env Volumetric then [''Volumetric configuration is invalid''] else []) @
     (if \<not> valid env Charges then [''Charges configuration is invalid''] else []) @
     (if \<not> valid env ZoneRates then [''Zone rate matrix is incomplete or invalid''] else [])"

definition validateAll :: "submit_env \<Rightarrow> bool \<times> effect list" where
  "validateAll env =
     (let isValid = (valid env Basics \<and> valid env Geo \<and> valid env Volumetric
                     \<and> valid env Charges \<and> valid env ZoneRates);
          calls = map CallValidate [Basics, Geo, Volumetric, Charges, ZoneRates]
      in (isValid,
          calls @ (if \<not> isValid then map (\<lambda>err. ToastError (Literal err)) (validation_errors env)
                   else [])))"

text \<open>The file that is sent: the chosen one, or a placeholder named after the clock.\<close>

definition fileToSend :: "submit_env \<Rightarrow> upload" where
  "fileToSend env =
     (case priceChartFile env of
        Some f \<Rightarrow> UserFile f
      | None \<Rightarrow> Placeholder (now env) (companyName env))"

definition build_request :: "submit_env \<Rightarrow> json \<Rightarrow> request" where
  "build_request env cid =
     \<lparr>url = API_BASE env @ ''/api/transporter/addtiedupcompanies'',
      authorization = ''Bearer '' @ getAuthToken (storage env),
      form = [(''customerID'', FValue cid),
              (''companyName'', FText (trim env (companyName env))),
              (''priceRate'', FText ''0''),
              (''priceChart'', FFile (fileToSend env)),
              (''vendorJson'', FText (vendorJson env))]\<rparr>"

text \<open>
  \<^verbatim>\<open>handleSubmit\<close> up to \<^verbatim>\<open>await fetch\<close>: the effects so far, and whether a request is
  now awaited. A \<^verbatim>\<open>return\<close> inside \<^verbatim>\<open>try\<close> still runs \<^verbatim>\<open>finally\<close>, hence the doubled
  \<^verbatim>\<open>setIsSubmitting(false)\<close>; an exception runs \<^verbatim>\<open>catch\<close> and \<^verbatim>\<open>finally\<close>.
\<close>

definition unexpected_error :: "effect list" where
  "unexpected_error =
     [ToastError (Literal ''An unexpected error occurred. Please try again.''),
      SetIsSubmitting False]"

definition handleSubmit_begin :: "submit_env \<Rightarrow> effect list \<times> bool" where
  "handleSubmit_begin env =
     (let (isValid, validation) = validateAll env
      in if \<not> isValid then (PreventDefault # validation, False)
         else if \<not> normalize_ok env
         then (PreventDefault # validation @
                 [SetIsSubmitting True, CallNormalizeAndValidate,
                  ToastError (Literal ''Failed to normalize zone rates''),
                  SetIsSubmitting False, SetIsSubmitting False], False)
         else (case getCustomerIDFromToken (atob_parse env) (getAuthToken (storage env)) of
                 Inl err \<Rightarrow>
                   (PreventDefault # validation @
                      [SetIsSubmitting True, CallNormalizeAndValidate] @ unexpected_error, False)
               | Inr cid \<Rightarrow>
                   if \<not> truthy cid
                   then (PreventDefault # validation @
                           [SetIsSubmitting True, CallNormalizeAndValidate,
                            ToastError (Literal ''No customerID found in token''),
                            SetIsSubmitting False, SetIsSubmitting False], False)
                   else (PreventDefault # validation @
                           [SetIsSubmitting True, CallNormalizeAndValidate,
                            Fetch (build_request env cid)], True)))"

text \<open>
  What comes back from \<^verbatim>\<open>fetch\<close>: a rejection, or a response with \<^verbatim>\<open>ok\<close>, \<^verbatim>\<open>status\<close> and
  the parsed body (\<open>None\<close> when \<^verbatim>\<open>res.json()\<close> rejects, which the code turns into \<^verbatim>\<open>{}\<close>).
\<close>

datatype fetch_result = NetworkFailure | Response bool nat "json option"

definition handleSubmit_resume :: "fetch_result \<Rightarrow> effect list" where
  "handleSubmit_resume r =
     (case r of
        NetworkFailure \<Rightarrow> unexpected_error
      | Response ok status parsed \<Rightarrow>
          let js = Some (case parsed of None \<Rightarrow> JObj [] | Some v \<Rightarrow> v)
          in if \<not> ok \<or> \<not> (case get_prop js ''success'' of None \<Rightarrow> False | Some v \<Rightarrow> truthy v)
             then [ToastError (case js_or (get_prop js ''message'') None of
                                 Some m \<Rightarrow> ServerMessage m
                               | None \<Rightarrow> FailedToCreate status),
                   SetIsSubmitting False, SetIsSubmitting False]
             else [ToastSuccess (Literal ''Vendor created successfully!''),
                   ClearDraft, Reset Basics, Reset Geo, Reset Volumetric, Reset Charges,
                   Reset ZoneRates, SetPriceChartFile None, BumpRefreshTrigger,
                   SetIsSubmitting False])"

text \<open>
  The answers that take the success path: the negation of the test
  \<^verbatim>\<open>!res.ok || !json?.success\<close> that \<^verbatim>\<open>handleSubmit\<close> applies.
\<close>

definition succeeded :: "fetch_result \<Rightarrow> bool" where
  "succeeded r =
     (case r of
        NetworkFailure \<Rightarrow> False
      | Response ok status parsed \<Rightarrow>
          ok \<and> (case get_prop (Some (case parsed of None \<Rightarrow> JObj [] | Some v \<Rightarrow> v)) ''success'' of
                  None \<Rightarrow> False | Some v \<Rightarrow> truthy v))"

text \<open>One whole run of \<^verbatim>\<open>handleSubmit\<close>, given what \<^verbatim>\<open>fetch\<close> will answer if it is called.\<close>

definition handleSubmit :: "submit_env \<Rightarrow> fetch_result \<Rightarrow> effect list" where
  "handleSubmit env r =
     (case handleSubmit_begin env of
        (effs, awaiting) \<Rightarrow> if awaiting then effs @ handleSubmit_resume r else effs)"

text \<open>The value of \<^verbatim>\<open>isSubmitting\<close> after a list of effects.\<close>

fun flag_after :: "bool \<Rightarrow> effect list \<Rightarrow> bool" where
  "flag_after b [] = b"
| "flag_after b (SetIsSubmitting v # rest) = flag_after v rest"
| "flag_after b (e # rest) = flag_after b rest"

fun is_error_toast :: "effect \<Rightarrow> bool" where
  "is_error_toast (ToastError m) = True"
| "is_error_toast e = False"

fun is_fetch :: "effect \<Rightarrow> bool" where
  "is_fetch (Fetch r) = True"
| "is_fetch e = False"

fun clears_draft_state :: "effect \<Rightarrow> bool" where
  "clears_draft_state ClearDraft = True"
| "clears_draft_state (Reset s) = True"
| "clears_draft_state (SetPriceChartFile f) = True"
| "clears_draft_state e = False"

text \<open>
  The state variables of the page itself (its \<^verbatim>\<open>useState\<close> declarations): the transport
  mode, the chosen price chart file, the flag and the refresh counter, with their
  initial values. The setters that \<^verbatim>\<open>handleSubmit\<close> calls act on them as follows; calls
  to the hooks, the draft store, the network and the toasts leave them as they are.
\<close>

datatype transport_mode = Road | Air | Rail | Ship

record page_state =
  transportMode :: transport_mode
  chartFile :: "string option"
  isSubmitting :: bool
  refreshTrigger :: nat

definition page_state_init :: page_state where
  "page_state_init =
     \<lparr>transportMode = Road, chartFile = None, isSubmitting = False, refreshTrigger = 0\<rparr>"

fun apply_effect :: "effect \<Rightarrow> page_state \<Rightarrow> page_state" where
  "apply_effect (SetIsSubmitting b) st = st\<lparr>isSubmitting := b\<rparr>"
| "apply_effect (SetPriceChartFile f) st = st\<lparr>chartFile := f\<rparr>"
| "apply_effect BumpRefreshTrigger st = st\<lparr>refreshTrigger := refreshTrigger st + 1\<rparr>"
| "apply_effect e st = st"

definition run_effects :: "effect list \<Rightarrow> page_state \<Rightarrow> page_state" where
  "run_effects effs st = fold apply_effect effs st"

section \<open>Basic charge fields (SimpleChargeField and SimpleField)\<close>

text \<open>
  A JavaScript number is NaN, an infinity or a finite value. \<^verbatim>\<open>parseFloat\<close> belongs to
  the platform and is a parameter. \<^verbatim>\<open>onChange\<close> is the callback of the parent, which
  stores the value; it is a parameter as well, acting on the parent's state.
\<close>

datatype number = NaN | PosInfinity | NegInfinity | Finite rat

definition isNaN :: "number \<Rightarrow> bool" where
  "isNaN n = (n = NaN)"

definition SimpleChargeField_handleChange ::
  "(string \<Rightarrow> number) \<Rightarrow> (number \<Rightarrow> 's \<Rightarrow> 's) \<Rightarrow> string \<Rightarrow> 's \<Rightarrow> 's" where
  "SimpleChargeField_handleChange parseFloat onChange val st =
     (if val = [] then onChange (Finite 0) st
      else let num = parseFloat val
           in if \<not> isNaN num then onChange num st else st)"

definition SimpleField_handleChange ::
  "(string \<Rightarrow> number) \<Rightarrow> (number \<Rightarrow> 's \<Rightarrow> 's) \<Rightarrow> string \<Rightarrow> 's \<Rightarrow> 's" where
  "SimpleField_handleChange parseFloat onChange val st =
     (if val = [] then onChange (Finite 0) st
      else let num = parseFloat val
           in if \<not> isNaN num then onChange num st else st)"

section \<open>Sample inputs\<close>

text \<open>
  A filled-in form whose sections all validate, with a token in local storage whose
  payload is the base64url text of \<^verbatim>\<open>{"customer":{"_id":"507f1f77"}}\<close>, and no price
  chart chosen; and the same form with the zone rates failing validation, and with no
  token anywhere. The decoder knows that one payload, and the stand-in for \<^verbatim>\<open>trim\<close>
  strips blanks.
\<close>

definition sample_token :: string where
  "sample_token =
     ''eyJhbGciOiJIUzI1NiIsInR5cCI6IkpXVCJ9.eyJjdXN0b21lciI6eyJfaWQiOiI1MDdmMWY3NyJ9fQ.c2ln''"

definition sample_atob_parse :: "string \<Rightarrow> json option" where
  "sample_atob_parse b64 =
     (if b64 = ''eyJjdXN0b21lciI6eyJfaWQiOiI1MDdmMWY3NyJ9fQ==''
      then Some (JObj [(''customer'', JObj [(''_id'', JStr ''507f1f77'')])])
      else None)"

definition sample_trim :: "string \<Rightarrow> string" where
  "sample_trim s =
     rev (dropWhile (\<lambda>c. c = CHR '' '') (rev (dropWhile (\<lambda>c. c = CHR '' '') s)))"

definition sample_env :: submit_env where
  "sample_env =
     \<lparr>valid = (\<lambda>s. True), normalize_ok = True, companyName = '' Acme Freight '',
      vendorJson = ''{}'', priceChartFile = None,
      storage = \<lparr>cookie_authToken = None, local_authToken = Some sample_token,
                 local_token = None\<rparr>,
      atob_parse = sample_atob_parse,
      now = 1704974400000, API_BASE = ''http://localhost:8000'', trim = sample_trim\<rparr>"

definition sample_env_invalid :: submit_env where
  "sample_env_invalid = sample_env\<lparr>valid := (\<lambda>s. s \<noteq> ZoneRates)\<rparr>"

definition sample_env_no_token :: submit_env where
  "sample_env_no_token =
     sample_env\<lparr>storage := \<lparr>cookie_authToken = None, local_authToken = None, local_token = None\<rparr>\<rparr>"

text \<open>A stand-in for \<^verbatim>\<open>parseFloat\<close> that knows one numeral.\<close>

definition sample_parseFloat :: "string \<Rightarrow> number" where
  "sample_parseFloat s = (if s = ''12.5'' then Finite 12.5 else NaN)"

section \<open>Properties of the zone selection\<close>

lemma handleZoneToggle_length:
  "length (selectedZones st) \<le> MAX_ZONES \<Longrightarrow>
   length (selectedZones (handleZoneToggle c st)) \<le> MAX_ZONES"
proof -
  assume bound: "length (selectedZones st) \<le> MAX_ZONES"
  have removed: "length (filter (\<lambda>zone. zone \<noteq> c) (selectedZones st)) \<le> MAX_ZONES"
    using le_trans [OF length_filter_le bound] .
  show ?thesis
  proof (cases "c \<in> set (selectedZones st)")
    case True
    with removed show ?thesis by (simp add: handleZoneToggle_def)
  next
    case False
    with bound show ?thesis by (auto simp: handleZoneToggle_def Let_def)
  qed
qed

lemma toggles_length:
  "length (selectedZones st) \<le> MAX_ZONES \<Longrightarrow>
   length (selectedZones (toggles cs st)) \<le> MAX_ZONES"
  unfolding toggles_def
  by (induction cs arbitrary: st) (simp_all add: handleZoneToggle_length)

lemma catalog_zones_count: "length catalog_zones = 28 \<and> distinct catalog_zones"
  by (simp add: catalog_zones_def ZONE_REGIONS_def)

text \<open>
  Claim C4. The component starts with an empty selection, and from any selection of at
  most 28 codes every sequence of toggles leaves at most 28 codes selected. A toggle of
  a selected code removes it; a toggle of an unselected code appends it while fewer than
  28 are selected; with 28 selected it leaves the selection as it is and raises
  \<^verbatim>\<open>showMaxWarning\<close>.
\<close>

theorem toggle_selection_bounded:
  "length (selectedZones (toggles cs selector_init)) \<le> 28 \<and>
   (length (selectedZones st) \<le> 28 \<longrightarrow>
      length (selectedZones (toggles cs st)) \<le> 28 \<and>
      (c \<in> set (selectedZones st) \<longrightarrow>
         selectedZones (handleZoneToggle c st) = filter (\<lambda>z. z \<noteq> c) (selectedZones st) \<and>
         c \<notin> set (selectedZones (handleZoneToggle c st))) \<and>
      (c \<notin> set (selectedZones st) \<and> length (selectedZones st) < 28 \<longrightarrow>
         selectedZones (handleZoneToggle c st) = selectedZones st @ [c]) \<and>
      (c \<notin> set (selectedZones st) \<and> length (selectedZones st) = 28 \<longrightarrow>
         handleZoneToggle c st = \<lparr>selectedZones = selectedZones st, showMaxWarning = True\<rparr>))"
proof -
  have init: "length (selectedZones (toggles cs selector_init)) \<le> 28"
    using toggles_length [of selector_init cs] by (simp add: selector_init_def MAX_ZONES_def)
  have seq: "length (selectedZones st) \<le> 28 \<Longrightarrow> length (selectedZones (toggles cs st)) \<le> 28"
    using toggles_length [of st cs] by (simp add: MAX_ZONES_def)
  have present: "c \<in> set (selectedZones st) \<Longrightarrow>
      selectedZones (handleZoneToggle c st) = filter (\<lambda>z. z \<noteq> c) (selectedZones st) \<and>
      c \<notin> set (selectedZones (handleZoneToggle c st))"
    by (simp add: handleZoneToggle_def)
  have absent: "c \<notin> set (selectedZones st) \<Longrightarrow> length (selectedZones st) < 28 \<Longrightarrow>
      selectedZones (handleZoneToggle c st) = selectedZones st @ [c]"
    by (simp add: handleZoneToggle_def MAX_ZONES_def Let_def)
  have full: "c \<notin> set (selectedZones st) \<Longrightarrow> length (selectedZones st) = 28 \<Longrightarrow>
      handleZoneToggle c st = \<lparr>selectedZones = selectedZones st, showMaxWarning = True\<rparr>"
    by (simp add: handleZoneToggle_def MAX_ZONES_def Let_def)
  from init seq present absent full show ?thesis by blast
qed

text \<open>
  The three kinds of toggle at concrete selections: removing N1 from [N1, S1], adding E1
  to it, and a toggle of a further code when all 28 catalog zones are selected.
\<close>

theorem toggle_selection_bounded_witness:
  "selectedZones (handleZoneToggle ''N1''
      \<lparr>selectedZones = [''N1'', ''S1''], showMaxWarning = False\<rparr>) = [''S1''] \<and>
   selectedZones (handleZoneToggle ''E1''
      \<lparr>selectedZones = [''N1'', ''S1''], showMaxWarning = False\<rparr>) = [''N1'', ''S1'', ''E1''] \<and>
   length catalog_zones = 28 \<and> ''N7'' \<notin> set catalog_zones \<and>
   handleZoneToggle ''N7'' \<lparr>selectedZones = catalog_zones, showMaxWarning = False\<rparr>
     = \<lparr>selectedZones = catalog_zones, showMaxWarning = True\<rparr> \<and>
   length (selectedZones (toggles [''N7'', ''N1'']
      \<lparr>selectedZones = catalog_zones, showMaxWarning = False\<rparr>)) \<le> 28"
proof -
  let ?two = "\<lparr>selectedZones = [''N1'', ''S1''], showMaxWarning = False\<rparr>"
  let ?all = "\<lparr>selectedZones = catalog_zones, showMaxWarning = False\<rparr>"
  have len: "length catalog_zones = 28" and out: "''N7'' \<notin> set catalog_zones"
    by (simp_all add: catalog_zones_def ZONE_REGIONS_def)
  have a: "selectedZones (handleZoneToggle ''N1'' ?two) = [''S1'']"
    using toggle_selection_bounded [of "[]" ?two "''N1''"] by simp
  have b: "selectedZones (handleZoneToggle ''E1'' ?two) = [''N1'', ''S1'', ''E1'']"
    using toggle_selection_bounded [of "[]" ?two "''E1''"] by simp
  have c: "handleZoneToggle ''N7'' ?all = \<lparr>selectedZones = catalog_zones, showMaxWarning = True\<rparr>
        \<and> length (selectedZones (toggles [''N7'', ''N1''] ?all)) \<le> 28"
    using toggle_selection_bounded [of "[''N7'', ''N1'']" ?all "''N7''"] len out by simp
  from a b c len out show ?thesis by simp
qed

section \<open>Properties of the zone-code pattern\<close>

lemma validZonePattern_iff:
  "validZonePattern s \<longleftrightarrow> (\<exists>p \<in> set zone_prefixes. \<exists>d \<in> set ''123456''. s = p @ [d])"
  unfolding validZonePattern_def
  by (metis append_butlast_last_id butlast_snoc last_snoc snoc_eq_iff_butlast)

lemma catalog_zones_valid: "\<forall>z \<in> set catalog_zones. validZonePattern z"
  by (simp add: validZonePattern_def zone_prefixes_def catalog_zones_def ZONE_REGIONS_def)

text \<open>
  Claim C5. The pattern of the middleware accepts every code of the catalog, but it also
  accepts the digits 5 and 6 after E, W, NE and C: NE5, E5, W6 and C6 pass it although
  none of them is a zone of the catalog.
\<close>

theorem validZonePattern_accepts_uncatalogued:
  "validZonePattern ''NE5'' \<and> ''NE5'' \<notin> set catalog_zones \<and>
   validZonePattern ''E5'' \<and> ''E5'' \<notin> set catalog_zones \<and>
   validZonePattern ''W6'' \<and> ''W6'' \<notin> set catalog_zones \<and>
   validZonePattern ''C6'' \<and> ''C6'' \<notin> set catalog_zones"
  by (simp add: validZonePattern_def zone_prefixes_def catalog_zones_def ZONE_REGIONS_def)

section \<open>Properties of the rate matrix store and normalizer\<close>

lemma round_half_up_grid: "\<exists>i::int. round_half_up x = of_int i / 100"
  by (auto simp: round_half_up_def)

lemma round_half_up_idem: "round_half_up (round_half_up x) = round_half_up x"
proof -
  have "\<lfloor>(of_int \<lfloor>x * 100 + 1 / 2\<rfloor> :: rat) / 100 * 100 + 1 / 2\<rfloor> = \<lfloor>x * 100 + 1 / 2\<rfloor>"
    by simp linarith
  then show ?thesis by (simp add: round_half_up_def)
qed

lemma round_half_up_nearest:
  "round_half_up x - 1 / 200 \<le> x \<and> x < round_half_up x + 1 / 200"
proof -
  have "of_int \<lfloor>x * 100 + 1 / 2\<rfloor> \<le> x * 100 + 1 / 2" by (rule of_int_floor_le)
  moreover have "x * 100 + 1 / 2 < of_int \<lfloor>x * 100 + 1 / 2\<rfloor> + 1" by linarith
  ultimately show ?thesis by (simp add: round_half_up_def field_simps)
qed

lemma round_half_up_examples:
  "round_half_up 50.005 = 50.01 \<and> round_half_up 130.753 = 130.75
   \<and> round_half_up 125.5 = 125.5 \<and> round_half_up 45 = 45"
  by (simp add: round_half_up_def floor_eq_iff)

lemma normalize_idem: "normalize (normalize m) = normalize m"
  by (rule ext) (simp add: normalize_def option.map_comp comp_def round_half_up_idem option.map_ident cong: option.map_cong)

lemma dom_normalize: "dom (normalize m) = dom m"
  by (auto simp: normalize_def dom_def)

lemma initialize_dom: "dom (initialize F T m) = F \<times> T"
  by (auto simp: initialize_def dom_def split: option.splits if_splits)

text \<open>
  Claim C2. Normalizing twice is normalizing once; the normalized matrix has the entries
  of the given one, unset prices stay unset, and every present price becomes the
  multiple of 0.01 nearest to it, a tie going up: 50.005 becomes 50.01 and 130.753
  becomes 130.75. \<open>normalize\<close> is a function from matrices to matrices, so the matrix it
  is given is the same before and after.
\<close>

theorem normalize_rounds_idempotent:
  "normalize (normalize m) = normalize m \<and>
   dom (normalize m) = dom m \<and>
   (normalize m k = Some None \<longleftrightarrow> m k = Some None) \<and>
   (m k = Some (Some p) \<longrightarrow>
      normalize m k = Some (Some (round_half_up p)) \<and>
      (\<exists>i::int. round_half_up p = of_int i / 100) \<and>
      round_half_up p - 1 / 200 \<le> p \<and> p < round_half_up p + 1 / 200) \<and>
   round_half_up 50.005 = 50.01 \<and> round_half_up 130.753 = 130.75"
proof -
  have unset: "normalize m k = Some None \<longleftrightarrow> m k = Some None"
    by (cases "m k") (auto simp: normalize_def)
  have present: "m k = Some (Some p) \<Longrightarrow> normalize m k = Some (Some (round_half_up p))"
    by (simp add: normalize_def)
  from unset present normalize_idem [of m] dom_normalize [of m] round_half_up_grid [of p]
       round_half_up_nearest [of p] round_half_up_examples
  show ?thesis by blast
qed

text \<open>
  A matrix with the prices 50.005 and 130.753 and one unset entry: the first is rounded
  to 50.01, the unset entry stays unset.
\<close>

theorem normalize_rounds_idempotent_witness:
  "normalize [(''N1'', ''N1'') \<mapsto> Some 50.005, (''S1'', ''N1'') \<mapsto> Some 130.753,
              (''N1'', ''S1'') \<mapsto> None] (''N1'', ''N1'') = Some (Some 50.01)
   \<and> normalize [(''N1'', ''N1'') \<mapsto> Some 50.005, (''S1'', ''N1'') \<mapsto> Some 130.753,
              (''N1'', ''S1'') \<mapsto> None] (''N1'', ''S1'') = Some None"
proof -
  let ?m = "[(''N1'', ''N1'') \<mapsto> Some 50.005, (''S1'', ''N1'') \<mapsto> Some 130.753,
             (''N1'', ''S1'') \<mapsto> None] :: rate_matrix"
  have given: "?m (''N1'', ''N1'') = Some (Some 50.005)" by simp
  have unset: "?m (''N1'', ''S1'') = Some None" by simp
  from normalize_rounds_idempotent [of ?m "(''N1'', ''N1'')" "50.005"] given
  have a: "normalize ?m (''N1'', ''N1'') = Some (Some 50.01)" by simp
  from normalize_rounds_idempotent [of ?m "(''N1'', ''S1'')"] unset
  have b: "normalize ?m (''N1'', ''S1'') = Some None" by blast
  from a b show ?thesis by simp
qed

text \<open>
  Claim C3. For a selection \<open>S\<close> of at most 28 zones, initializing over \<open>S \<times> S\<close> gives
  exactly the entries of \<open>S \<times> S\<close>, that is \<open>|S|\<^sup>2\<close> of them, self-pairs included. A pair
  without entry gets one with the price absent, an entry of a pair in \<open>S \<times> S\<close> is kept
  as it was, an entry with a zone outside \<open>S\<close> is gone, and from the empty matrix every
  entry is unset.
\<close>

theorem initialize_full_matrix:
  assumes "finite S" and "card S \<le> 28"
  shows "dom (initialize S S m) = S \<times> S \<and>
         card (dom (initialize S S m)) = (card S)\<^sup>2 \<and>
         (f \<in> S \<and> t \<in> S \<and> m (f, t) = None \<longrightarrow> initialize S S m (f, t) = Some None) \<and>
         (f \<in> S \<and> t \<in> S \<and> m (f, t) = Some p \<longrightarrow> initialize S S m (f, t) = Some p) \<and>
         (f \<notin> S \<or> t \<notin> S \<longrightarrow> initialize S S m (f, t) = None) \<and>
         (f \<in> S \<and> t \<in> S \<longrightarrow> initialize S S Map.empty (f, t) = Some None)"
proof -
  have d: "dom (initialize S S m) = S \<times> S" by (rule initialize_dom)
  have "card (S \<times> S) = (card S)\<^sup>2"
    by (simp add: card_cartesian_product power2_eq_square)
  with d have c: "card (dom (initialize S S m)) = (card S)\<^sup>2" by simp
  from d c show ?thesis by (auto simp: initialize_def)
qed

text \<open>
  The selection N1, S1 over a matrix that prices N1 \<rightarrow> S1 and the stale pair N1 \<rightarrow> E1:
  four entries, the price of N1 \<rightarrow> S1 kept, S1 \<rightarrow> N1 unset, N1 \<rightarrow> E1 dropped.
\<close>

theorem initialize_full_matrix_witness:
  "card (dom (initialize {''N1'', ''S1''} {''N1'', ''S1''}
            [(''N1'', ''S1'') \<mapsto> Some 125.5, (''N1'', ''E1'') \<mapsto> Some 80])) = 4
   \<and> initialize {''N1'', ''S1''} {''N1'', ''S1''}
            [(''N1'', ''S1'') \<mapsto> Some 125.5, (''N1'', ''E1'') \<mapsto> Some 80] (''N1'', ''S1'')
       = Some (Some 125.5)
   \<and> initialize {''N1'', ''S1''} {''N1'', ''S1''}
            [(''N1'', ''S1'') \<mapsto> Some 125.5, (''N1'', ''E1'') \<mapsto> Some 80] (''S1'', ''N1'')
       = Some None
   \<and> initialize {''N1'', ''S1''} {''N1'', ''S1''}
            [(''N1'', ''S1'') \<mapsto> Some 125.5, (''N1'', ''E1'') \<mapsto> Some 80] (''N1'', ''E1'')
       = None"
proof -
  let ?S = "{''N1'', ''S1''}"
  let ?m = "[(''N1'', ''S1'') \<mapsto> Some 125.5, (''N1'', ''E1'') \<mapsto> Some 80] :: rate_matrix"
  have fin: "finite ?S" and small: "card ?S \<le> 28" and two: "card ?S = 2" by simp_all
  from initialize_full_matrix [OF fin small, of ?m "''N1''" "''S1''" "Some 125.5"]
  have a: "card (dom (initialize ?S ?S ?m)) = 4"
    and b: "initialize ?S ?S ?m (''N1'', ''S1'') = Some (Some 125.5)"
    by (simp_all add: two)
  from initialize_full_matrix [OF fin small, of ?m "''S1''" "''N1''"]
  have c: "initialize ?S ?S ?m (''S1'', ''N1'') = Some None" by simp
  from initialize_full_matrix [OF fin small, of ?m "''N1''" "''E1''"]
  have d: "initialize ?S ?S ?m (''N1'', ''E1'') = None" by simp
  from a b c d show ?thesis by simp
qed

lemma unset_iff: "(x = None \<or> x = Some None) \<longleftrightarrow> \<not> (\<exists>p. x = Some (Some p))"
  by (cases x) auto

lemma matrix_errors_empty:
  "matrix_errors m S = {} \<longleftrightarrow>
     (\<forall>f \<in> S. \<forall>t \<in> S. \<exists>p. m (f, t) = Some (Some p)) \<and>
     (\<forall>f t p. m (f, t) = Some (Some p) \<longrightarrow> 0 \<le> p) \<and>
     (\<forall>f t. m (f, t) \<noteq> None \<longrightarrow> f \<in> S \<and> t \<in> S)"
proof -
  have missing: "{MissingEntry f t | f t.
        f \<in> S \<and> t \<in> S \<and> (m (f, t) = None \<or> m (f, t) = Some None)} = {} \<longleftrightarrow>
      (\<forall>f \<in> S. \<forall>t \<in> S. \<exists>p. m (f, t) = Some (Some p))"
    by (simp add: unset_iff) blast
  have negative: "{NegativePrice f t p | f t p. m (f, t) = Some (Some p) \<and> p < 0} = {} \<longleftrightarrow>
      (\<forall>f t p. m (f, t) = Some (Some p) \<longrightarrow> 0 \<le> p)"
    by (simp add: not_less)
  have stale: "{ZoneOutOfScope f t | f t.
           m (f, t) \<noteq> None \<and> (f \<notin> S \<or> t \<notin> S)} = {} \<longleftrightarrow>
      (\<forall>f t. m (f, t) \<noteq> None \<longrightarrow> f \<in> S \<and> t \<in> S)"
    by simp (metis not_None_eq option.distinct(1))
  show ?thesis
    unfolding matrix_errors_def Un_empty missing negative stale by blast
qed

text \<open>
  Claim C1. Validation of the rate matrix fails if and only if some in-scope pair of the
  active zones has no price, or some entry has a negative price, or some entry names a
  zone outside the active set. When it fails it returns the errors it found, and there
  is at least one; when it succeeds, every in-scope pair carries a non-negative price.
\<close>

theorem validate_fails_iff:
  "(validate m S \<noteq> Inr () \<longleftrightarrow>
      (\<exists>f \<in> S. \<exists>t \<in> S. m (f, t) = None \<or> m (f, t) = Some None)
      \<or> (\<exists>f t p. m (f, t) = Some (Some p) \<and> p < 0)
      \<or> (\<exists>f t. m (f, t) \<noteq> None \<and> (f \<notin> S \<or> t \<notin> S))) \<and>
   (validate m S \<noteq> Inr () \<longrightarrow>
      validate m S = Inl (matrix_errors m S) \<and> matrix_errors m S \<noteq> {}) \<and>
   (validate m S = Inr () \<longrightarrow>
      (\<forall>f \<in> S. \<forall>t \<in> S. \<exists>p. m (f, t) = Some (Some p) \<and> 0 \<le> p))"
proof -
  let ?A = "\<forall>f \<in> S. \<forall>t \<in> S. \<exists>p. m (f, t) = Some (Some p)"
  let ?B = "\<forall>f t p. m (f, t) = Some (Some p) \<longrightarrow> 0 \<le> p"
  let ?C = "\<forall>f t. m (f, t) \<noteq> None \<longrightarrow> f \<in> S \<and> t \<in> S"
  have ok: "validate m S = Inr () \<longleftrightarrow> ?A \<and> ?B \<and> ?C"
    by (simp add: validate_def matrix_errors_empty)
  have a: "\<not> ?A \<longleftrightarrow> (\<exists>f \<in> S. \<exists>t \<in> S. m (f, t) = None \<or> m (f, t) = Some None)"
    by (simp add: unset_iff)
  have b: "\<not> ?B \<longleftrightarrow> (\<exists>f t p. m (f, t) = Some (Some p) \<and> p < 0)"
    by (simp add: not_le)
  have c: "\<not> ?C \<longleftrightarrow> (\<exists>f t. m (f, t) \<noteq> None \<and> (f \<notin> S \<or> t \<notin> S))"
    by simp
  have fails: "validate m S \<noteq> Inr () \<longleftrightarrow>
      (\<exists>f \<in> S. \<exists>t \<in> S. m (f, t) = None \<or> m (f, t) = Some None)
      \<or> (\<exists>f t p. m (f, t) = Some (Some p) \<and> p < 0)
      \<or> (\<exists>f t. m (f, t) \<noteq> None \<and> (f \<notin> S \<or> t \<notin> S))"
    unfolding ok a [symmetric] b [symmetric] c [symmetric] by blast
  have errors: "validate m S \<noteq> Inr () \<longrightarrow>
      validate m S = Inl (matrix_errors m S) \<and> matrix_errors m S \<noteq> {}"
    by (simp add: validate_def)
  have priced: "validate m S = Inr () \<longrightarrow>
      (\<forall>f \<in> S. \<forall>t \<in> S. \<exists>p. m (f, t) = Some (Some p) \<and> 0 \<le> p)"
    unfolding ok by blast
  from fails errors priced show ?thesis by blast
qed

text \<open>
  The zones N1 and S1. With all four pairs priced at 50.005, 125.5, 130.753 and 45 the
  validation succeeds; with N1 \<rightarrow> S1 left unset it fails with the one missing-entry
  error for that pair; a price of -5 fails; an entry for the stale pair N1 \<rightarrow> E1 fails.
\<close>

theorem validate_fails_iff_witness:
  "validate [(''N1'', ''N1'') \<mapsto> Some 50.005, (''N1'', ''S1'') \<mapsto> Some 125.5,
             (''S1'', ''N1'') \<mapsto> Some 130.753, (''S1'', ''S1'') \<mapsto> Some 45]
       {''N1'', ''S1''} = Inr () \<and>
   validate [(''N1'', ''N1'') \<mapsto> Some 50.005, (''N1'', ''S1'') \<mapsto> None,
             (''S1'', ''N1'') \<mapsto> Some 130.753, (''S1'', ''S1'') \<mapsto> Some 45]
       {''N1'', ''S1''} = Inl {MissingEntry ''N1'' ''S1''} \<and>
   validate [(''N1'', ''N1'') \<mapsto> Some (- 5)] {''N1''} \<noteq> Inr () \<and>
   validate [(''N1'', ''N1'') \<mapsto> Some 50, (''N1'', ''E1'') \<mapsto> Some 80] {''N1''} \<noteq> Inr ()"
proof -
  let ?S = "{''N1'', ''S1''}"
  let ?full = "[(''N1'', ''N1'') \<mapsto> Some 50.005, (''N1'', ''S1'') \<mapsto> Some 125.5,
             (''S1'', ''N1'') \<mapsto> Some 130.753, (''S1'', ''S1'') \<mapsto> Some 45] :: rate_matrix"
  let ?gap = "[(''N1'', ''N1'') \<mapsto> Some 50.005, (''N1'', ''S1'') \<mapsto> None,
             (''S1'', ''N1'') \<mapsto> Some 130.753, (''S1'', ''S1'') \<mapsto> Some 45] :: rate_matrix"
  let ?neg = "[(''N1'', ''N1'') \<mapsto> Some (- 5)] :: rate_matrix"
  let ?stale = "[(''N1'', ''N1'') \<mapsto> Some 50, (''N1'', ''E1'') \<mapsto> Some 80] :: rate_matrix"
  have a1: "\<not> (\<exists>f \<in> ?S. \<exists>t \<in> ?S. ?full (f, t) = None \<or> ?full (f, t) = Some None)"
    by simp
  have a2: "\<not> (\<exists>f t p. ?full (f, t) = Some (Some p) \<and> p < 0)"
    by (auto split: if_splits)
  have a3: "\<not> (\<exists>f t. ?full (f, t) \<noteq> None \<and> (f \<notin> ?S \<or> t \<notin> ?S))"
    by (auto split: if_splits)
  from validate_fails_iff [of ?full ?S] a1 a2 a3
  have a: "validate ?full ?S = Inr ()" by blast
  have "\<exists>f \<in> ?S. \<exists>t \<in> ?S. ?gap (f, t) = None \<or> ?gap (f, t) = Some None"
    by simp
  with validate_fails_iff [of ?gap ?S]
  have "validate ?gap ?S = Inl (matrix_errors ?gap ?S)" by blast
  moreover have "matrix_errors ?gap ?S = {MissingEntry ''N1'' ''S1''}"
  proof -
    have missing: "f \<in> ?S \<and> t \<in> ?S \<and> (?gap (f, t) = None \<or> ?gap (f, t) = Some None)
                    \<longleftrightarrow> f = ''N1'' \<and> t = ''S1''" for f t
      by auto
    have negative: "\<not> (?gap (f, t) = Some (Some p) \<and> p < 0)" for f t p
      by (auto split: if_splits)
    have stale: "\<not> (?gap (f, t) \<noteq> None \<and> (f \<notin> ?S \<or> t \<notin> ?S))" for f t
      by (auto split: if_splits)
    have s1: "{MissingEntry f t | f t.
          f \<in> ?S \<and> t \<in> ?S \<and> (?gap (f, t) = None \<or> ?gap (f, t) = Some None)}
        = {MissingEntry ''N1'' ''S1''}"
      unfolding missing by simp
    have s2: "{NegativePrice f t p | f t p. ?gap (f, t) = Some (Some p) \<and> p < 0} = {}"
      using negative by blast
    have s3: "{ZoneOutOfScope f t | f t. ?gap (f, t) \<noteq> None \<and> (f \<notin> ?S \<or> t \<notin> ?S)} = {}"
      using stale by blast
    show ?thesis
      unfolding matrix_errors_def s1 s2 s3 by simp
  qed
  ultimately have b: "validate ?gap ?S = Inl {MissingEntry ''N1'' ''S1''}" by simp
  have "\<exists>f t p. ?neg (f, t) = Some (Some p) \<and> p < 0"
    by (rule exI [of _ "''N1''"], rule exI [of _ "''N1''"], rule exI [of _ "- 5"]) simp
  with validate_fails_iff [of ?neg "{''N1''}"]
  have c: "validate ?neg {''N1''} \<noteq> Inr ()" by blast
  have "\<exists>f t. ?stale (f, t) \<noteq> None \<and> (f \<notin> {''N1''} \<or> t \<notin> {''N1''})"
    by (rule exI [of _ "''N1''"], rule exI [of _ "''E1''"]) simp
  with validate_fails_iff [of ?stale "{''N1''}"]
  have d: "validate ?stale {''N1''} \<noteq> Inr ()" by blast
  from a b c d show ?thesis by blast
qed

section \<open>Properties of the submission\<close>

lemma validateAll_fst:
  "fst (validateAll env) \<longleftrightarrow> (\<forall>s. valid env s)"
proof -
  have "(\<forall>s. valid env s) \<longleftrightarrow> valid env Basics \<and> valid env Geo \<and> valid env Volumetric
          \<and> valid env Charges \<and> valid env ZoneRates"
    by (metis form_section.exhaust)
  then show ?thesis by (simp add: validateAll_def Let_def)
qed

lemma validateAll_effects:
  "e \<in> set (snd (validateAll env)) \<Longrightarrow> (\<exists>s. e = CallValidate s) \<or> (\<exists>m. e = ToastError (Literal m))"
  by (auto simp: validateAll_def Let_def)

lemma validateAll_no_normalize:
  "CallNormalizeAndValidate \<notin> set (snd (validateAll env))"
  using validateAll_effects [of CallNormalizeAndValidate env] by auto

lemma handleSubmit_resume_cases:
  "handleSubmit_resume r = unexpected_error
   \<or> (\<exists>m. handleSubmit_resume r = [ToastError m, SetIsSubmitting False, SetIsSubmitting False])
   \<or> handleSubmit_resume r =
        [ToastSuccess (Literal ''Vendor created successfully!''),
         ClearDraft, Reset Basics, Reset Geo, Reset Volumetric, Reset Charges,
         Reset ZoneRates, SetPriceChartFile None, BumpRefreshTrigger, SetIsSubmitting False]"
  by (cases r) (simp_all add: handleSubmit_resume_def Let_def)

lemma handleSubmit_resume_no_calls:
  "CallNormalizeAndValidate \<notin> set (handleSubmit_resume r) \<and>
   CallValidate s \<notin> set (handleSubmit_resume r)"
  using handleSubmit_resume_cases [of r] by (auto simp: unexpected_error_def)

lemma handleSubmit_begin_shape:
  "\<exists>rest. fst (handleSubmit_begin env) = PreventDefault # snd (validateAll env) @ rest \<and>
          (\<not> fst (validateAll env) \<longrightarrow> rest = [] \<and> \<not> snd (handleSubmit_begin env)) \<and>
          (fst (validateAll env) \<longrightarrow>
             (\<exists>more. rest = SetIsSubmitting True # CallNormalizeAndValidate # more \<and>
                     CallNormalizeAndValidate \<notin> set more \<and> (\<forall>s. CallValidate s \<notin> set more)))"
  by (cases "validateAll env")
     (auto simp: handleSubmit_begin_def unexpected_error_def split: sum.splits)

text \<open>
  Claim C6. Every run of \<^verbatim>\<open>handleSubmit\<close> begins with the calls of the five validators
  and the messages of those that failed; \<^verbatim>\<open>normalizeAndValidate\<close> is not called among
  them, and no validator is called afterwards. If some section fails its validation the
  run ends there, so the matrix is never normalized; if all pass, the flag is raised and
  \<^verbatim>\<open>normalizeAndValidate\<close> is called next, once.
\<close>

theorem normalization_after_validation:
  "\<exists>rest. handleSubmit env r = PreventDefault # snd (validateAll env) @ rest \<and>
          CallNormalizeAndValidate \<notin> set (PreventDefault # snd (validateAll env)) \<and>
          (\<forall>s. CallValidate s \<notin> set rest) \<and>
          (\<not> (\<forall>s. valid env s) \<longrightarrow> rest = []) \<and>
          ((\<forall>s. valid env s) \<longrightarrow>
             (\<exists>more. rest = SetIsSubmitting True # CallNormalizeAndValidate # more \<and>
                     CallNormalizeAndValidate \<notin> set more))"
proof -
  obtain rest where
    shape: "fst (handleSubmit_begin env) = PreventDefault # snd (validateAll env) @ rest"
    and bad: "\<not> fst (validateAll env) \<longrightarrow> rest = [] \<and> \<not> snd (handleSubmit_begin env)"
    and good: "fst (validateAll env) \<longrightarrow>
             (\<exists>more. rest = SetIsSubmitting True # CallNormalizeAndValidate # more \<and>
                     CallNormalizeAndValidate \<notin> set more \<and> (\<forall>s. CallValidate s \<notin> set more))"
    using handleSubmit_begin_shape [of env] by blast
  let ?tail = "if snd (handleSubmit_begin env) then handleSubmit_resume r else []"
  have whole: "handleSubmit env r = PreventDefault # snd (validateAll env) @ (rest @ ?tail)"
    using shape by (cases "handleSubmit_begin env") (simp add: handleSubmit_def)
  have calls: "\<forall>s. CallValidate s \<notin> set (rest @ ?tail)"
    using bad good handleSubmit_resume_no_calls by (cases "fst (validateAll env)") auto
  have stop: "\<not> (\<forall>s. valid env s) \<longrightarrow> rest @ ?tail = []"
    using bad by (simp add: validateAll_fst)
  have go: "(\<forall>s. valid env s) \<longrightarrow>
             (\<exists>more. rest @ ?tail = SetIsSubmitting True # CallNormalizeAndValidate # more \<and>
                     CallNormalizeAndValidate \<notin> set more)"
  proof
    assume "\<forall>s. valid env s"
    then obtain more where m: "rest = SetIsSubmitting True # CallNormalizeAndValidate # more"
        and n: "CallNormalizeAndValidate \<notin> set more"
      using good by (auto simp: validateAll_fst)
    have "rest @ ?tail = SetIsSubmitting True # CallNormalizeAndValidate # (more @ ?tail)"
      using m by simp
    moreover have "CallNormalizeAndValidate \<notin> set (more @ ?tail)"
      using n handleSubmit_resume_no_calls by simp
    ultimately show "\<exists>more. rest @ ?tail = SetIsSubmitting True # CallNormalizeAndValidate # more \<and>
                     CallNormalizeAndValidate \<notin> set more" by blast
  qed
  have pre: "CallNormalizeAndValidate \<notin> set (PreventDefault # snd (validateAll env))"
    using validateAll_no_normalize by simp
  from whole pre calls stop go show ?thesis by blast
qed

lemma sample_customer_id:
  "getCustomerIDFromToken (atob_parse sample_env) (getAuthToken (storage sample_env))
   = Inr (JStr ''507f1f77'')"
  by (simp add: sample_env_def sample_token_def sample_atob_parse_def getAuthToken_def
        or_else_def getCustomerIDFromToken_def base64UrlToJson_def js_or_def Let_def
        numeral_2_eq_2)

lemma sample_begin:
  "handleSubmit_begin sample_env =
     ([PreventDefault, CallValidate Basics, CallValidate Geo, CallValidate Volumetric,
       CallValidate Charges, CallValidate ZoneRates, SetIsSubmitting True,
       CallNormalizeAndValidate, Fetch (build_request sample_env (JStr ''507f1f77''))], True)"
  using sample_customer_id
  by (simp add: handleSubmit_begin_def validateAll_def Let_def)
     (simp add: sample_env_def)


text \<open>
  With the zone rates invalid the run is the validation alone; with every section valid
  it goes on to raise the flag and to normalize.
\<close>

theorem normalization_after_validation_witness:
  "\<not> valid sample_env_invalid ZoneRates \<and>
   handleSubmit sample_env_invalid NetworkFailure =
     [PreventDefault, CallValidate Basics, CallValidate Geo, CallValidate Volumetric,
      CallValidate Charges, CallValidate ZoneRates,
      ToastError (Literal ''Zone rate matrix is incomplete or invalid'')] \<and>
   take 8 (handleSubmit sample_env NetworkFailure) =
     [PreventDefault, CallValidate Basics, CallValidate Geo, CallValidate Volumetric,
      CallValidate Charges, CallValidate ZoneRates, SetIsSubmitting True,
      CallNormalizeAndValidate]"
proof -
  have bad: "\<not> (\<forall>s. valid sample_env_invalid s)" and bad': "\<not> valid sample_env_invalid ZoneRates"
    by (auto simp: sample_env_invalid_def)
  have good: "\<forall>s. valid sample_env s"
    by (simp add: sample_env_def)
  have v1: "snd (validateAll sample_env_invalid) =
      [CallValidate Basics, CallValidate Geo, CallValidate Volumetric,
       CallValidate Charges, CallValidate ZoneRates,
       ToastError (Literal ''Zone rate matrix is incomplete or invalid'')]"
    by (simp add: validateAll_def validation_errors_def sample_env_invalid_def sample_env_def Let_def)
  have v2: "snd (validateAll sample_env) =
      [CallValidate Basics, CallValidate Geo, CallValidate Volumetric,
       CallValidate Charges, CallValidate ZoneRates]"
    by (simp add: validateAll_def sample_env_def Let_def)
  from normalization_after_validation [of sample_env_invalid NetworkFailure] bad
  have a: "handleSubmit sample_env_invalid NetworkFailure =
             PreventDefault # snd (validateAll sample_env_invalid)"
    by auto
  from normalization_after_validation [of sample_env NetworkFailure] good
  obtain more where "handleSubmit sample_env NetworkFailure =
      PreventDefault # snd (validateAll sample_env) @
        SetIsSubmitting True # CallNormalizeAndValidate # more"
    by auto
  then have b: "take 8 (handleSubmit sample_env NetworkFailure) =
     [PreventDefault, CallValidate Basics, CallValidate Geo, CallValidate Volumetric,
      CallValidate Charges, CallValidate ZoneRates, SetIsSubmitting True,
      CallNormalizeAndValidate]"
    by (simp add: v2)
  from a b bad' show ?thesis by (simp add: v1)
qed

lemma flag_after_append: "flag_after b (xs @ ys) = flag_after (flag_after b xs) ys"
  by (induction b xs rule: flag_after.induct) simp_all

lemma flag_after_validateAll: "flag_after b (snd (validateAll env)) = b"
proof -
  have "flag_after b (map (\<lambda>err. ToastError (Literal err)) errs) = b" for errs
    by (induction errs) simp_all
  then show ?thesis by (simp add: validateAll_def Let_def flag_after_append)
qed

lemma flag_after_resume: "flag_after b (handleSubmit_resume r) = False"
  using handleSubmit_resume_cases [of r] by (auto simp: unexpected_error_def)

lemma flag_after_begin:
  "flag_after False (fst (handleSubmit_begin env)) = snd (handleSubmit_begin env)"
proof (cases "validateAll env")
  case (Pair isValid validation)
  then have v: "flag_after b validation = b" for b
    using flag_after_validateAll [of b env] by simp
  from Pair show ?thesis
    by (auto simp: handleSubmit_begin_def unexpected_error_def flag_after_append v
          split: sum.splits)
qed

lemma fetch_is_last:
  "snd (handleSubmit_begin env) \<Longrightarrow>
   \<exists>cid. getCustomerIDFromToken (atob_parse env) (getAuthToken (storage env)) = Inr cid \<and>
         truthy cid \<and>
         fst (handleSubmit_begin env) =
           (PreventDefault # snd (validateAll env) @ [SetIsSubmitting True, CallNormalizeAndValidate])
           @ [Fetch (build_request env cid)]"
  by (cases "validateAll env")
     (auto simp: handleSubmit_begin_def unexpected_error_def split: sum.splits if_splits)

lemma validateAll_no_fetch: "filter is_fetch (snd (validateAll env)) = []"
  by (auto simp: validateAll_def Let_def filter_empty_conv)

text \<open>
  When \<^verbatim>\<open>handleSubmit\<close> sends a request, the request is its last effect before the
  \<^verbatim>\<open>await\<close>, no request precedes it, and the flag has been raised by then.
\<close>

lemma flag_raised_before_fetch:
  assumes "snd (handleSubmit_begin env)"
  shows "\<exists>before req. fst (handleSubmit_begin env) = before @ [Fetch req] \<and>
                      filter is_fetch before = [] \<and> flag_after b before"
proof -
  from assms obtain cid where
    eq: "fst (handleSubmit_begin env) =
         (PreventDefault # snd (validateAll env) @ [SetIsSubmitting True, CallNormalizeAndValidate])
         @ [Fetch (build_request env cid)]"
    using fetch_is_last by blast
  let ?before = "PreventDefault # snd (validateAll env) @ [SetIsSubmitting True, CallNormalizeAndValidate]"
  have "filter is_fetch ?before = []" by (simp add: validateAll_no_fetch)
  moreover have "flag_after b ?before" by (simp add: flag_after_append)
  ultimately show ?thesis using eq by blast
qed

text \<open>
  Claim C7. \<^verbatim>\<open>handleSubmit\<close> raises the flag before it sends its request, but it never
  reads the flag: only the disabled submit button keeps a submit event away while a
  request is pending. Two submit events for the sample form that both reach
  \<^verbatim>\<open>handleSubmit\<close> before any answer has arrived: the first run leaves the flag up and a
  request awaited, the second run sends a second request all the same, so two requests
  are in flight at once.
\<close>

theorem second_submit_sends_second_request:
  "flag_after False (fst (handleSubmit_begin sample_env)) \<and>
   snd (handleSubmit_begin sample_env) \<and>
   filter is_fetch (fst (handleSubmit_begin sample_env) @ fst (handleSubmit_begin sample_env)) =
     [Fetch (build_request sample_env (JStr ''507f1f77'')),
      Fetch (build_request sample_env (JStr ''507f1f77''))]"
  by (simp add: sample_begin)

lemma getCustomerIDFromToken_absent:
  "tok = [] \<or> length (split_on (CHR ''.'') tok) < 2 \<Longrightarrow>
   getCustomerIDFromToken ap tok = Inr (JStr [])"
  by (auto simp: getCustomerIDFromToken_def)

lemma getCustomerIDFromToken_undecodable:
  "base64UrlToJson ap (split_on (CHR ''.'') tok ! 1) = None \<Longrightarrow>
   getCustomerIDFromToken ap tok = Inr (JStr [])"
  by (simp add: getCustomerIDFromToken_def js_or_def Let_def)

lemma get_prop_missing:
  "k \<notin> fst ` set kvs \<Longrightarrow> get_prop (Some (JObj kvs)) k = None"
  by (simp add: map_of_eq_None_iff)

lemma getCustomerIDFromToken_no_claim:
  assumes "base64UrlToJson ap (split_on (CHR ''.'') tok ! 1) = Some (JObj kvs)"
      and "\<forall>k \<in> set [''customer'', ''user'', ''_id'', ''id'', ''customerId'', ''customerID''].
             k \<notin> fst ` set kvs"
  shows "getCustomerIDFromToken ap tok = Inr (JStr [])"
proof -
  from assms(2) have
    "get_prop (Some (JObj kvs)) ''customer'' = None" "get_prop (Some (JObj kvs)) ''user'' = None"
    "get_prop (Some (JObj kvs)) ''_id'' = None" "get_prop (Some (JObj kvs)) ''id'' = None"
    "get_prop (Some (JObj kvs)) ''customerId'' = None"
    "get_prop (Some (JObj kvs)) ''customerID'' = None"
    by (simp_all add: get_prop_missing del: get_prop.simps)
  moreover have "get_prop None k = None" for k by simp
  ultimately show ?thesis using assms(1)
    by (simp add: getCustomerIDFromToken_def js_or_def Let_def del: get_prop.simps)
qed

lemma price_chart_field:
  "map_of (form (build_request env cid)) ''priceChart'' = Some (FFile (fileToSend env))"
  by (simp add: build_request_def)


lemma handleSubmit_no_id:
  assumes "\<forall>cid. getCustomerIDFromToken (atob_parse env) (getAuthToken (storage env)) = Inr cid
             \<longrightarrow> \<not> truthy cid"
  shows "\<not> snd (handleSubmit_begin env)"
    and "\<forall>s. valid env s \<Longrightarrow> normalize_ok env \<Longrightarrow>
         \<exists>m. handleSubmit env r =
           PreventDefault # snd (validateAll env) @
             [SetIsSubmitting True, CallNormalizeAndValidate, ToastError (Literal m)] @
             (if m = ''No customerID found in token''
              then [SetIsSubmitting False, SetIsSubmitting False] else [SetIsSubmitting False])
           \<and> m \<in> {''No customerID found in token'',
                   ''An unexpected error occurred. Please try again.''}"
proof -
  show "\<not> snd (handleSubmit_begin env)"
    using assms
    by (cases "validateAll env")
       (auto simp: handleSubmit_begin_def split: sum.splits)
  assume "\<forall>s. valid env s" and "normalize_ok env"
  then have v: "fst (validateAll env)" and n: "normalize_ok env"
    by (simp_all add: validateAll_fst)
  show "\<exists>m. handleSubmit env r =
           PreventDefault # snd (validateAll env) @
             [SetIsSubmitting True, CallNormalizeAndValidate, ToastError (Literal m)] @
             (if m = ''No customerID found in token''
              then [SetIsSubmitting False, SetIsSubmitting False] else [SetIsSubmitting False])
           \<and> m \<in> {''No customerID found in token'',
                   ''An unexpected error occurred. Please try again.''}"
  proof (cases "getCustomerIDFromToken (atob_parse env) (getAuthToken (storage env))")
    case (Inl err)
    with v n have "handleSubmit env r =
        PreventDefault # snd (validateAll env) @
          [SetIsSubmitting True, CallNormalizeAndValidate,
           ToastError (Literal ''An unexpected error occurred. Please try again.''),
           SetIsSubmitting False]"
      by (cases "validateAll env")
         (simp add: handleSubmit_def handleSubmit_begin_def unexpected_error_def)
    then show ?thesis by simp
  next
    case (Inr cid)
    with assms have "\<not> truthy cid" by simp
    with Inr v n have "handleSubmit env r =
        PreventDefault # snd (validateAll env) @
          [SetIsSubmitting True, CallNormalizeAndValidate,
           ToastError (Literal ''No customerID found in token''),
           SetIsSubmitting False, SetIsSubmitting False]"
      by (cases "validateAll env")
         (simp add: handleSubmit_def handleSubmit_begin_def)
    then show ?thesis by simp
  qed
qed


lemma validateAll_valid:
  "\<forall>s. valid env s \<Longrightarrow>
   snd (validateAll env) = map CallValidate [Basics, Geo, Volumetric, Charges, ZoneRates]"
  by (simp add: validateAll_def Let_def)

lemma validateAll_no_clearing: "filter clears_draft_state (snd (validateAll env)) = []"
  by (auto simp: validateAll_def Let_def filter_empty_conv)

lemma begin_no_clearing: "filter clears_draft_state (fst (handleSubmit_begin env)) = []"
proof (cases "validateAll env")
  case (Pair isValid validation)
  then have "filter clears_draft_state validation = []"
    using validateAll_no_clearing [of env] by simp
  with Pair show ?thesis
    by (auto simp: handleSubmit_begin_def unexpected_error_def split: sum.splits)
qed

lemma begin_fetches:
  "filter is_fetch (fst (handleSubmit_begin env)) =
     (if snd (handleSubmit_begin env) then [last (fst (handleSubmit_begin env))] else [])"
proof (cases "validateAll env")
  case (Pair isValid validation)
  then have "filter is_fetch validation = []"
    using validateAll_no_fetch [of env] by simp
  with Pair show ?thesis
    by (auto simp: handleSubmit_begin_def unexpected_error_def split: sum.splits)
qed

lemma resume_no_fetch: "filter is_fetch (handleSubmit_resume r) = []"
  using handleSubmit_resume_cases [of r] by (auto simp: unexpected_error_def)

lemma handleSubmit_fetches:
  "filter is_fetch (handleSubmit env r) =
     (if snd (handleSubmit_begin env) then [last (fst (handleSubmit_begin env))] else [])"
  by (cases "handleSubmit_begin env")
     (use begin_fetches [of env] in \<open>auto simp: handleSubmit_def resume_no_fetch\<close>)

lemma flag_after_handleSubmit: "flag_after False (handleSubmit env r) = False"
  by (cases "handleSubmit_begin env")
     (use flag_after_begin [of env] in
        \<open>auto simp: handleSubmit_def flag_after_append flag_after_resume\<close>)

lemma resume_succeeded:
  "succeeded r \<Longrightarrow>
   handleSubmit_resume r =
     [ToastSuccess (Literal ''Vendor created successfully!''),
      ClearDraft, Reset Basics, Reset Geo, Reset Volumetric, Reset Charges,
      Reset ZoneRates, SetPriceChartFile None, BumpRefreshTrigger, SetIsSubmitting False]"
  by (cases r) (auto simp: succeeded_def handleSubmit_resume_def Let_def)

lemma resume_failed:
  "\<not> succeeded r \<Longrightarrow>
   handleSubmit_resume r = unexpected_error \<or>
   (\<exists>m. handleSubmit_resume r = [ToastError m, SetIsSubmitting False, SetIsSubmitting False])"
  by (cases r) (auto simp: succeeded_def handleSubmit_resume_def Let_def)

text \<open>
  What \<^verbatim>\<open>handleSubmit\<close> does with the answer. After an answer that succeeded it clears
  the draft store, resets each of the five section hooks, clears the price chart file
  and lowers the flag. After a network failure or an answer that did not succeed, the
  whole run contains no clearing of the draft store, no reset and no change of the file;
  it shows one error message, sends nothing further, and lowers the flag. No run sends
  more than one request.
\<close>

lemma submission_outcome:
  "(succeeded r \<longrightarrow>
      handleSubmit_resume r =
        [ToastSuccess (Literal ''Vendor created successfully!''),
         ClearDraft, Reset Basics, Reset Geo, Reset Volumetric, Reset Charges,
         Reset ZoneRates, SetPriceChartFile None, BumpRefreshTrigger, SetIsSubmitting False]) \<and>
   (\<not> succeeded r \<longrightarrow>
      filter clears_draft_state (handleSubmit env r) = [] \<and>
      length (filter is_error_toast (handleSubmit_resume r)) = 1 \<and>
      filter is_fetch (handleSubmit_resume r) = []) \<and>
   flag_after b (handleSubmit_resume r) = False \<and>
   flag_after False (handleSubmit env r) = False \<and>
   length (filter is_fetch (handleSubmit env r)) \<le> 1"
proof -
  have failed: "\<not> succeeded r \<longrightarrow>
      filter clears_draft_state (handleSubmit env r) = [] \<and>
      length (filter is_error_toast (handleSubmit_resume r)) = 1"
  proof
    assume "\<not> succeeded r"
    then have shape: "handleSubmit_resume r = unexpected_error \<or>
        (\<exists>m. handleSubmit_resume r = [ToastError m, SetIsSubmitting False, SetIsSubmitting False])"
      by (rule resume_failed)
    then have quiet: "filter clears_draft_state (handleSubmit_resume r) = []"
      and one: "length (filter is_error_toast (handleSubmit_resume r)) = 1"
      by (auto simp: unexpected_error_def)
    have "filter clears_draft_state (handleSubmit env r) = []"
      by (cases "handleSubmit_begin env")
         (use begin_no_clearing [of env] quiet in \<open>auto simp: handleSubmit_def\<close>)
    with one show "filter clears_draft_state (handleSubmit env r) = [] \<and>
      length (filter is_error_toast (handleSubmit_resume r)) = 1" by simp
  qed
  have once: "length (filter is_fetch (handleSubmit env r)) \<le> 1"
    by (simp add: handleSubmit_fetches)
  from failed once resume_succeeded [of r] resume_no_fetch [of r] flag_after_resume [of b r]
       flag_after_handleSubmit [of env r]
  show ?thesis by blast
qed

lemma sample_success_run:
  "handleSubmit (sample_env\<lparr>priceChartFile := Some ''rates.pdf''\<rparr>)
     (Response True 200 (Some (JObj [(''success'', JBool True)]))) =
   [PreventDefault, CallValidate Basics, CallValidate Geo, CallValidate Volumetric,
    CallValidate Charges, CallValidate ZoneRates, SetIsSubmitting True,
    CallNormalizeAndValidate,
    Fetch (build_request (sample_env\<lparr>priceChartFile := Some ''rates.pdf''\<rparr>) (JStr ''507f1f77'')),
    ToastSuccess (Literal ''Vendor created successfully!''),
    ClearDraft, Reset Basics, Reset Geo, Reset Volumetric, Reset Charges,
    Reset ZoneRates, SetPriceChartFile None, BumpRefreshTrigger, SetIsSubmitting False]"
proof -
  let ?chart = "sample_env\<lparr>priceChartFile := Some ''rates.pdf''\<rparr>"
  have "handleSubmit_begin ?chart =
     ([PreventDefault, CallValidate Basics, CallValidate Geo, CallValidate Volumetric,
       CallValidate Charges, CallValidate ZoneRates, SetIsSubmitting True,
       CallNormalizeAndValidate, Fetch (build_request ?chart (JStr ''507f1f77''))], True)"
    using sample_customer_id
    by (simp add: handleSubmit_begin_def validateAll_def Let_def)
       (simp add: sample_env_def)
  then show ?thesis
    by (simp add: handleSubmit_def handleSubmit_resume_def)
qed

text \<open>
  Claim C8. The sample form with the transport mode set to air and a price chart chosen
  is submitted, and the server answers with success. The run clears the chosen file,
  bumps the refresh counter and leaves the flag down, next to clearing the draft store
  and resetting the five section hooks; but the transport mode, which the page restores
  from the draft on mount and sends in the vendor object, is still air afterwards, not
  its initial value road.
\<close>

theorem success_keeps_transport_mode:
  "run_effects
     (handleSubmit (sample_env\<lparr>priceChartFile := Some ''rates.pdf''\<rparr>)
        (Response True 200 (Some (JObj [(''success'', JBool True)]))))
     \<lparr>transportMode = Air, chartFile = Some ''rates.pdf'', isSubmitting = False,
      refreshTrigger = 0\<rparr>
   = \<lparr>transportMode = Air, chartFile = None, isSubmitting = False, refreshTrigger = 1\<rparr>
   \<and> transportMode page_state_init = Road"
  by (simp add: sample_success_run run_effects_def page_state_init_def)

lemma error_toasts_when_valid:
  "\<forall>s. valid env s \<Longrightarrow> filter is_error_toast (snd (validateAll env)) = []"
  by (simp add: validateAll_valid)

lemma sent_request:
  assumes "Fetch req \<in> set (handleSubmit env r)"
  shows "\<exists>cid. truthy cid \<and>
           getCustomerIDFromToken (atob_parse env) (getAuthToken (storage env)) = Inr cid \<and>
           req = build_request env cid"
proof -
  from assms have "Fetch req \<in> set (filter is_fetch (handleSubmit env r))" by simp
  then have aw: "snd (handleSubmit_begin env)"
    and l: "Fetch req = last (fst (handleSubmit_begin env))"
    by (auto simp: handleSubmit_fetches split: if_splits)
  from fetch_is_last [OF aw] l show ?thesis by auto
qed

text \<open>
  Claim C9. When \<^verbatim>\<open>getCustomerIDFromToken\<close> yields no usable identifier (an empty or
  otherwise falsy value, or the exception it raises on a null \<^verbatim>\<open>customer\<close> property),
  the run of \<^verbatim>\<open>handleSubmit\<close> sends no request and leaves the flag down; once validation
  and normalization have passed it shows exactly one error message. A token that is
  absent, has fewer than two dot-separated parts, has an undecodable payload, or decodes
  to an object with none of the six recognised properties yields no identifier. Every
  request that is sent carries a \<^verbatim>\<open>priceChart\<close> file: the chosen file if there is one,
  otherwise the generated placeholder.
\<close>

theorem missing_customer_id_blocks_submission:
  "((\<forall>cid. getCustomerIDFromToken (atob_parse env) (getAuthToken (storage env)) = Inr cid
            \<longrightarrow> \<not> truthy cid) \<longrightarrow>
      filter is_fetch (handleSubmit env r) = [] \<and>
      flag_after False (handleSubmit env r) = False \<and>
      ((\<forall>s. valid env s) \<and> normalize_ok env \<longrightarrow>
         (\<exists>m \<in> {''No customerID found in token'',
                  ''An unexpected error occurred. Please try again.''}.
            filter is_error_toast (handleSubmit env r) = [ToastError (Literal m)]))) \<and>
   (tok = [] \<or> length (split_on (CHR ''.'') tok) < 2 \<or>
    base64UrlToJson ap (split_on (CHR ''.'') tok ! 1) = None \<or>
    (\<exists>kvs. base64UrlToJson ap (split_on (CHR ''.'') tok ! 1) = Some (JObj kvs) \<and>
           (\<forall>k \<in> set [''customer'', ''user'', ''_id'', ''id'', ''customerId'', ''customerID''].
              k \<notin> fst ` set kvs))
      \<longrightarrow> getCustomerIDFromToken ap tok = Inr (JStr []) \<and> \<not> truthy (JStr [])) \<and>
   (Fetch req \<in> set (handleSubmit env r) \<longrightarrow>
      map_of (form req) ''priceChart'' =
        Some (FFile (case priceChartFile env of
                       Some f \<Rightarrow> UserFile f
                     | None \<Rightarrow> Placeholder (now env) (companyName env))))"
proof -
  have blocked: "(\<forall>cid. getCustomerIDFromToken (atob_parse env) (getAuthToken (storage env)) = Inr cid
            \<longrightarrow> \<not> truthy cid) \<longrightarrow>
      filter is_fetch (handleSubmit env r) = [] \<and>
      flag_after False (handleSubmit env r) = False \<and>
      ((\<forall>s. valid env s) \<and> normalize_ok env \<longrightarrow>
         (\<exists>m \<in> {''No customerID found in token'',
                  ''An unexpected error occurred. Please try again.''}.
            filter is_error_toast (handleSubmit env r) = [ToastError (Literal m)]))"
  proof (intro impI conjI)
    assume noid: "\<forall>cid. getCustomerIDFromToken (atob_parse env) (getAuthToken (storage env)) = Inr cid
            \<longrightarrow> \<not> truthy cid"
    from handleSubmit_no_id(1) [OF noid]
    show "filter is_fetch (handleSubmit env r) = []"
      by (simp add: handleSubmit_fetches)
    show "flag_after False (handleSubmit env r) = False"
      by (rule flag_after_handleSubmit)
    assume ready: "(\<forall>s. valid env s) \<and> normalize_ok env"
    then obtain m where
      run: "handleSubmit env r =
           PreventDefault # snd (validateAll env) @
             [SetIsSubmitting True, CallNormalizeAndValidate, ToastError (Literal m)] @
             (if m = ''No customerID found in token''
              then [SetIsSubmitting False, SetIsSubmitting False] else [SetIsSubmitting False])"
      and m: "m \<in> {''No customerID found in token'',
                   ''An unexpected error occurred. Please try again.''}"
      using handleSubmit_no_id(2) [OF noid, of r] by blast
    from ready have "filter is_error_toast (snd (validateAll env)) = []"
      by (simp add: error_toasts_when_valid)
    with run have "filter is_error_toast (handleSubmit env r) = [ToastError (Literal m)]"
      by simp
    with m show "\<exists>m \<in> {''No customerID found in token'',
                  ''An unexpected error occurred. Please try again.''}.
            filter is_error_toast (handleSubmit env r) = [ToastError (Literal m)]"
      by blast
  qed
  have kinds: "tok = [] \<or> length (split_on (CHR ''.'') tok) < 2 \<or>
    base64UrlToJson ap (split_on (CHR ''.'') tok ! 1) = None \<or>
    (\<exists>kvs. base64UrlToJson ap (split_on (CHR ''.'') tok ! 1) = Some (JObj kvs) \<and>
           (\<forall>k \<in> set [''customer'', ''user'', ''_id'', ''id'', ''customerId'', ''customerID''].
              k \<notin> fst ` set kvs))
      \<longrightarrow> getCustomerIDFromToken ap tok = Inr (JStr []) \<and> \<not> truthy (JStr [])"
    using getCustomerIDFromToken_absent [of tok ap]
          getCustomerIDFromToken_undecodable [of ap tok]
          getCustomerIDFromToken_no_claim [of ap tok]
    by auto
  have carried: "Fetch req \<in> set (handleSubmit env r) \<longrightarrow>
      map_of (form req) ''priceChart'' =
        Some (FFile (case priceChartFile env of
                       Some f \<Rightarrow> UserFile f
                     | None \<Rightarrow> Placeholder (now env) (companyName env)))"
  proof
    assume "Fetch req \<in> set (handleSubmit env r)"
    then obtain cid where "req = build_request env cid"
      using sent_request by blast
    then show "map_of (form req) ''priceChart'' =
        Some (FFile (case priceChartFile env of
                       Some f \<Rightarrow> UserFile f
                     | None \<Rightarrow> Placeholder (now env) (companyName env)))"
      by (simp add: price_chart_field fileToSend_def)
  qed
  from blocked kinds carried show ?thesis by blast
qed

lemma sample_no_token_id:
  "getCustomerIDFromToken (atob_parse sample_env_no_token)
     (getAuthToken (storage sample_env_no_token)) = Inr (JStr [])"
  by (simp add: sample_env_no_token_def sample_env_def getAuthToken_def or_else_def
        getCustomerIDFromToken_def)

text \<open>
  Without any token the sample form is stopped with the one message and no request;
  with its token the request carries the placeholder, and the chosen file once one is
  chosen.
\<close>

theorem missing_customer_id_blocks_submission_witness:
  "getAuthToken (storage sample_env_no_token) = [] \<and>
   getCustomerIDFromToken (atob_parse sample_env_no_token) [] = Inr (JStr []) \<and>
   filter is_fetch (handleSubmit sample_env_no_token NetworkFailure) = [] \<and>
   filter is_error_toast (handleSubmit sample_env_no_token NetworkFailure) =
     [ToastError (Literal ''No customerID found in token'')] \<and>
   Fetch (build_request sample_env (JStr ''507f1f77'')) \<in> set (handleSubmit sample_env NetworkFailure) \<and>
   map_of (form (build_request sample_env (JStr ''507f1f77''))) ''priceChart'' =
     Some (FFile (Placeholder 1704974400000 '' Acme Freight '')) \<and>
   Fetch (build_request (sample_env\<lparr>priceChartFile := Some ''rates.pdf''\<rparr>) (JStr ''507f1f77''))
     \<in> set (handleSubmit (sample_env\<lparr>priceChartFile := Some ''rates.pdf''\<rparr>) NetworkFailure) \<and>
   map_of (form (build_request (sample_env\<lparr>priceChartFile := Some ''rates.pdf''\<rparr>)
     (JStr ''507f1f77''))) ''priceChart'' = Some (FFile (UserFile ''rates.pdf''))"
proof -
  let ?none = sample_env_no_token
  let ?chart = "sample_env\<lparr>priceChartFile := Some ''rates.pdf''\<rparr>"
  let ?id = "JStr ''507f1f77''"
  have tok: "getAuthToken (storage ?none) = []"
    by (simp add: sample_env_no_token_def sample_env_def getAuthToken_def or_else_def)
  have noid: "\<forall>cid. getCustomerIDFromToken (atob_parse ?none) (getAuthToken (storage ?none)) = Inr cid
            \<longrightarrow> \<not> truthy cid"
    by (simp add: sample_no_token_id)
  have ready: "(\<forall>s. valid ?none s) \<and> normalize_ok ?none"
    by (simp add: sample_env_no_token_def sample_env_def)
  from missing_customer_id_blocks_submission
         [where env = ?none and r = NetworkFailure and tok = "[]" and ap = "atob_parse ?none"
            and req = "build_request ?none ?id"] noid
  have blocked: "filter is_fetch (handleSubmit ?none NetworkFailure) = []"
    and one: "\<exists>m \<in> {''No customerID found in token'',
                     ''An unexpected error occurred. Please try again.''}.
            filter is_error_toast (handleSubmit ?none NetworkFailure) = [ToastError (Literal m)]"
    and absent: "getCustomerIDFromToken (atob_parse ?none) [] = Inr (JStr [])"
    using ready by blast+
  have run: "filter is_error_toast (handleSubmit ?none NetworkFailure) =
     [ToastError (Literal ''No customerID found in token'')]"
    using sample_no_token_id ready
    by (simp add: handleSubmit_def handleSubmit_begin_def validateAll_def Let_def)
  have sent1: "Fetch (build_request sample_env ?id) \<in> set (handleSubmit sample_env NetworkFailure)"
    by (simp add: handleSubmit_def sample_begin)
  have chart_begin: "handleSubmit_begin ?chart =
     ([PreventDefault, CallValidate Basics, CallValidate Geo, CallValidate Volumetric,
       CallValidate Charges, CallValidate ZoneRates, SetIsSubmitting True,
       CallNormalizeAndValidate, Fetch (build_request ?chart ?id)], True)"
    using sample_customer_id
    by (simp add: handleSubmit_begin_def validateAll_def Let_def)
       (simp add: sample_env_def)
  then have sent2: "Fetch (build_request ?chart ?id) \<in> set (handleSubmit ?chart NetworkFailure)"
    by (simp add: handleSubmit_def)
  from missing_customer_id_blocks_submission
         [where env = sample_env and r = NetworkFailure and tok = "[]"
            and ap = "atob_parse sample_env" and req = "build_request sample_env ?id"] sent1
  have file1: "map_of (form (build_request sample_env ?id)) ''priceChart'' =
     Some (FFile (Placeholder 1704974400000 '' Acme Freight ''))"
    by (simp add: sample_env_def)
  from missing_customer_id_blocks_submission
         [where env = ?chart and r = NetworkFailure and tok = "[]"
            and ap = "atob_parse ?chart" and req = "build_request ?chart ?id"] sent2
  have file2: "map_of (form (build_request ?chart ?id)) ''priceChart'' =
     Some (FFile (UserFile ''rates.pdf''))"
    by simp
  from tok blocked one absent run sent1 file1 sent2 file2 show ?thesis by simp
qed

section \<open>Properties of the basic charge fields\<close>

text \<open>
  Claim C10. Both change handlers of the basic charge fields behave alike. An empty
  input passes 0 to \<^verbatim>\<open>onChange\<close>; an input that \<^verbatim>\<open>parseFloat\<close> turns into NaN leaves the
  parent's state as it is; any other input passes its parsed number to \<^verbatim>\<open>onChange\<close>.
  With a callback that stores what it is given, the stored value becomes 0, stays, or
  becomes the parsed number. The handler has no failing branch.
\<close>

theorem charge_field_change:
  "(val = [] \<longrightarrow>
      SimpleChargeField_handleChange parseFloat onChange val st = onChange (Finite 0) st \<and>
      SimpleChargeField_handleChange parseFloat (\<lambda>v stored. v) val stored = Finite 0) \<and>
   (val \<noteq> [] \<and> parseFloat val = NaN \<longrightarrow>
      SimpleChargeField_handleChange parseFloat onChange val st = st) \<and>
   (val \<noteq> [] \<and> parseFloat val \<noteq> NaN \<longrightarrow>
      SimpleChargeField_handleChange parseFloat onChange val st = onChange (parseFloat val) st \<and>
      SimpleChargeField_handleChange parseFloat (\<lambda>v stored. v) val stored = parseFloat val) \<and>
   SimpleField_handleChange parseFloat onChange val st =
     SimpleChargeField_handleChange parseFloat onChange val st"
  by (simp add: SimpleChargeField_handleChange_def SimpleField_handleChange_def isNaN_def Let_def)

text \<open>
  The three kinds of input over a stored value of 3.
\<close>

theorem charge_field_change_witness:
  "SimpleChargeField_handleChange sample_parseFloat (\<lambda>v stored. v) [] (Finite 3) = Finite 0 \<and>
   sample_parseFloat ''abc'' = NaN \<and>
   SimpleChargeField_handleChange sample_parseFloat (\<lambda>v stored. v) ''abc'' (Finite 3) = Finite 3 \<and>
   sample_parseFloat ''12.5'' = Finite 12.5 \<and>
   SimpleField_handleChange sample_parseFloat (\<lambda>v stored. v) ''12.5'' (Finite 3) = Finite 12.5"
proof -
  let ?store = "\<lambda>(v::number) (stored::number). v"
  have nan: "sample_parseFloat ''abc'' = NaN" and num: "sample_parseFloat ''12.5'' = Finite 12.5"
    by (simp_all add: sample_parseFloat_def)
  from charge_field_change [of "[]" sample_parseFloat ?store "Finite 3" "Finite 3"]
  have a: "SimpleChargeField_handleChange sample_parseFloat ?store [] (Finite 3) = Finite 0"
    by simp
  from charge_field_change [of "''abc''" sample_parseFloat ?store "Finite 3" "Finite 3"] nan
  have b: "SimpleChargeField_handleChange sample_parseFloat ?store ''abc'' (Finite 3) = Finite 3"
    by simp
  from charge_field_change [of "''12.5''" sample_parseFloat ?store "Finite 3" "Finite 3"] num
  have c: "SimpleField_handleChange sample_parseFloat ?store ''12.5'' (Finite 3) = Finite 12.5"
    by simp
  from a b c nan num show ?thesis by simp
qed

end
